theory Spec2Isabelle
  imports Main "HOL-Library.Word" "HOL-Library.Char_ord" "HOL-Library.List_Lexorder"
    "HOL-Library.Sublist"
begin

unbundle bit_operations_syntax

section \<open>Python values and strings\<close>

text \<open>
  A Python \<open>str\<close> is modelled as a HOL \<open>string\<close> whose characters are the code points
  below 256 (the Latin-1 range, which holds the non-breaking space U+00A0 that
  \<open>clean_text\<close> names). \<open>cp\<close> reads the code point of a character.
\<close>

definition cp :: "char \<Rightarrow> nat" where
  "cp c = of_char c"

text \<open>
  \<open>str.isspace\<close>, the class \<open>\s\<close> of \<open>re\<close> on \<open>str\<close> patterns and the characters
  removed by \<open>str.strip()\<close> are the same set; below 256 it is
  U+0009..U+000D, U+001C..U+0020, U+0085 and U+00A0.
\<close>

definition isspace :: "char \<Rightarrow> bool" where
  "isspace c = ((9 \<le> cp c \<and> cp c \<le> 13) \<or> (28 \<le> cp c \<and> cp c \<le> 32) \<or> cp c = 133 \<or> cp c = 160)"

text \<open>\<open>\d\<close> on a \<open>str\<close> pattern: the decimal digits; below 256 these are 0..9.\<close>

definition isdigit :: "char \<Rightarrow> bool" where
  "isdigit c = (48 \<le> cp c \<and> cp c \<le> 57)"

text \<open>
  \<open>str.lower()\<close> below 256: A..Z and U+00C0..U+00DE (without the multiplication sign
  U+00D7) move up by 32; every other character is unchanged.
\<close>

definition lower_char :: "char \<Rightarrow> char" where
  "lower_char c =
     (if (65 \<le> cp c \<and> cp c \<le> 90) \<or> (192 \<le> cp c \<and> cp c \<le> 222 \<and> cp c \<noteq> 215)
      then char_of (cp c + 32) else c)"

definition str_lower :: "string \<Rightarrow> string" where
  "str_lower s = map lower_char s"

definition str_strip :: "string \<Rightarrow> string" where
  "str_strip s = rev (dropWhile isspace (rev (dropWhile isspace s)))"

text \<open>\<open>s.zfill(2)\<close> on a string without sign: pad with zeros on the left up to width 2.\<close>

definition zfill2 :: "string \<Rightarrow> string" where
  "zfill2 s = replicate (2 - length s) (CHR ''0'') @ s"

text \<open>
  The values a raw record can hold: the scalars that survive \<open>json.dump\<close>.
  Raw records and normalized records are both Python dicts with string keys.
\<close>

datatype pyval = PyNone | PyBool bool | PyInt int | PyStr string

type_synonym dict = "string \<Rightarrow> pyval option"

text \<open>Truthiness, as tested by \<open>if not v\<close>.\<close>

fun truthy :: "pyval \<Rightarrow> bool" where
  "truthy PyNone = False"
| "truthy (PyBool b) = b"
| "truthy (PyInt i) = (i \<noteq> 0)"
| "truthy (PyStr s) = (s \<noteq> [])"

text \<open>\<open>str(v)\<close>, which is also what an f-string writes for \<open>{v}\<close>.\<close>

definition digit_char :: "nat \<Rightarrow> char" where
  "digit_char d = char_of (48 + d)"

fun digits :: "nat \<Rightarrow> string" where
  "digits n = (if n < 10 then [digit_char n] else digits (n div 10) @ [digit_char (n mod 10)])"

declare digits.simps [simp del]

definition str_of_int :: "int \<Rightarrow> string" where
  "str_of_int i = (if i < 0 then CHR ''-'' # digits (nat (- i)) else digits (nat i))"

fun py_str :: "pyval \<Rightarrow> string" where
  "py_str PyNone = ''None''"
| "py_str (PyBool b) = (if b then ''True'' else ''False'')"
| "py_str (PyInt i) = str_of_int i"
| "py_str (PyStr s) = s"

text \<open>
  Equality and hashing of Python values, as a set of ids uses them: \<open>True == 1\<close> and
  \<open>False == 0\<close> with equal hashes, every other pair of distinct values of this type differs.
  \<open>py_key\<close> picks the representative.
\<close>

fun py_key :: "pyval \<Rightarrow> pyval" where
  "py_key (PyBool b) = PyInt (if b then 1 else 0)"
| "py_key v = v"

text \<open>\<open>d.get(k)\<close>: the value, or \<open>None\<close> for a missing key.\<close>

definition dict_get :: "dict \<Rightarrow> string \<Rightarrow> pyval" where
  "dict_get d k = (case d k of None \<Rightarrow> PyNone | Some v \<Rightarrow> v)"

section \<open>base_scraper.clean_text\<close>

text \<open>
  \<open>re.sub(r'<[^>]+>', '', text)\<close>. At a \<open><\<close> the greedy class \<open>[^>]+\<close> takes the whole run
  of characters other than \<open>>\<close>; the match succeeds when that run is not empty and a \<open>>\<close>
  follows it (giving characters back cannot help, since every character of the run differs
  from \<open>>\<close>). A match is deleted and the scan goes on behind it; otherwise the character
  is kept.
\<close>

function strip_tags :: "string \<Rightarrow> string" where
  "strip_tags [] = []"
| "strip_tags (c # cs) =
     (if c = CHR ''<'' \<and> takeWhile (\<lambda>x. x \<noteq> CHR ''>'') cs \<noteq> [] \<and> dropWhile (\<lambda>x. x \<noteq> CHR ''>'') cs \<noteq> []
      then strip_tags (tl (dropWhile (\<lambda>x. x \<noteq> CHR ''>'') cs))
      else c # strip_tags cs)"
  by pat_completeness auto
termination
proof (relation "measure length")
  fix c :: char and cs :: string
  assume "c = CHR ''<'' \<and> takeWhile (\<lambda>x. x \<noteq> CHR ''>'') cs \<noteq> [] \<and> dropWhile (\<lambda>x. x \<noteq> CHR ''>'') cs \<noteq> []"
  have "length (tl (dropWhile (\<lambda>x. x \<noteq> CHR ''>'') cs)) \<le> length cs"
    using length_dropWhile_le [of "\<lambda>x. x \<noteq> CHR ''>''" cs] by simp
  then show "(tl (dropWhile (\<lambda>x. x \<noteq> CHR ''>'') cs), c # cs) \<in> measure length"
    by simp
qed simp_all

text \<open>\<open>re.sub(r'\s+', ' ', text)\<close>: every maximal run of whitespace becomes one space.\<close>

function collapse_ws :: "string \<Rightarrow> string" where
  "collapse_ws [] = []"
| "collapse_ws (c # cs) =
     (if isspace c then CHR '' '' # collapse_ws (dropWhile isspace cs)
      else c # collapse_ws cs)"
  by pat_completeness auto
termination
proof (relation "measure length")
  fix c :: char and cs :: string
  have "length (dropWhile isspace cs) \<le> length cs"
    by (rule length_dropWhile_le)
  then show "(dropWhile isspace cs, c # cs) \<in> measure length"
    by simp
qed simp_all

text \<open>The two \<open>str.replace\<close> calls: U+00A0 becomes a space, U+000D is deleted.\<close>

definition replace_nbsp :: "string \<Rightarrow> string" where
  "replace_nbsp s = map (\<lambda>c. if cp c = 160 then CHR '' '' else c) s"

definition remove_cr :: "string \<Rightarrow> string" where
  "remove_cr s = filter (\<lambda>c. cp c \<noteq> 13) s"

definition clean_text :: "string \<Rightarrow> string" where
  "clean_text text =
     (if text = [] then []
      else remove_cr (replace_nbsp (str_strip (collapse_ws (strip_tags text)))))"

section \<open>base_scraper.validate_opportunity\<close>

text \<open>
  The loop over \<open>['title', 'source']\<close>: the first field that is falsy, or whose
  \<open>str(...).strip()\<close> is empty, returns \<open>False\<close>.
\<close>

fun validate_fields :: "dict \<Rightarrow> string list \<Rightarrow> bool" where
  "validate_fields opp [] = True"
| "validate_fields opp (f # fs) =
     (if \<not> truthy (dict_get opp f) \<or> str_strip (py_str (dict_get opp f)) = []
      then False else validate_fields opp fs)"

definition validate_opportunity :: "dict \<Rightarrow> bool" where
  "validate_opportunity opp = validate_fields opp [''title'', ''source'']"

section \<open>base_scraper.remove_duplicates\<close>

text \<open>
  The loop with its two variables: \<open>seen_ids\<close> (a set, here of the representatives
  \<open>py_key\<close>) and \<open>unique_opps\<close> (a list, appended to).
\<close>

fun dedup_loop :: "pyval set \<Rightarrow> dict list \<Rightarrow> dict list \<Rightarrow> dict list" where
  "dedup_loop seen_ids unique_opps [] = unique_opps"
| "dedup_loop seen_ids unique_opps (opp # opps) =
     (if truthy (dict_get opp ''id'') \<and> py_key (dict_get opp ''id'') \<notin> seen_ids
      then dedup_loop (insert (py_key (dict_get opp ''id'')) seen_ids) (unique_opps @ [opp]) opps
      else dedup_loop seen_ids unique_opps opps)"

definition remove_duplicates :: "dict list \<Rightarrow> dict list" where
  "remove_duplicates opportunities = dedup_loop {} [] opportunities"

section \<open>hashlib.sha256\<close>

text \<open>
  \<open>generate_id\<close> calls \<open>hashlib.sha256(...).hexdigest()\<close>. The hash is SHA-256 of
  FIPS 180-4 on the bytes of the message, written out here so that the shape of the
  identifier is a theorem and not an assumption. Bytes are numbers below 256. The
  round constants (from the cube roots of the first 64 primes) and the initial state
  (from the square roots of the first 8 primes) are written in decimal.
\<close>

definition K256 :: "32 word list" where
  "K256 = [
     1116352408, 1899447441, 3049323471, 3921009573,
     961987163, 1508970993, 2453635748, 2870763221,
     3624381080, 310598401, 607225278, 1426881987,
     1925078388, 2162078206, 2614888103, 3248222580,
     3835390401, 4022224774, 264347078, 604807628,
     770255983, 1249150122, 1555081692, 1996064986,
     2554220882, 2821834349, 2952996808, 3210313671,
     3336571891, 3584528711, 113926993, 338241895,
     666307205, 773529912, 1294757372, 1396182291,
     1695183700, 1986661051, 2177026350, 2456956037,
     2730485921, 2820302411, 3259730800, 3345764771,
     3516065817, 3600352804, 4094571909, 275423344,
     430227734, 506948616, 659060556, 883997877,
     958139571, 1322822218, 1537002063, 1747873779,
     1955562222, 2024104815, 2227730452, 2361852424,
     2428436474, 2756734187, 3204031479, 3329325298]"

type_synonym hstate =
  "32 word \<times> 32 word \<times> 32 word \<times> 32 word \<times> 32 word \<times> 32 word \<times> 32 word \<times> 32 word"

definition H256 :: hstate where
  "H256 = (1779033703, 3144134277, 1013904242, 2773480762,
           1359893119, 2600822924, 528734635, 1541459225)"

definition Ch :: "32 word \<Rightarrow> 32 word \<Rightarrow> 32 word \<Rightarrow> 32 word" where
  "Ch x y z = (x AND y) XOR (NOT x AND z)"

definition Maj :: "32 word \<Rightarrow> 32 word \<Rightarrow> 32 word \<Rightarrow> 32 word" where
  "Maj x y z = (x AND y) XOR (x AND z) XOR (y AND z)"

definition Sigma0 :: "32 word \<Rightarrow> 32 word" where
  "Sigma0 x = word_rotr 2 x XOR word_rotr 13 x XOR word_rotr 22 x"

definition Sigma1 :: "32 word \<Rightarrow> 32 word" where
  "Sigma1 x = word_rotr 6 x XOR word_rotr 11 x XOR word_rotr 25 x"

definition sigma0 :: "32 word \<Rightarrow> 32 word" where
  "sigma0 x = word_rotr 7 x XOR word_rotr 18 x XOR drop_bit 3 x"

definition sigma1 :: "32 word \<Rightarrow> 32 word" where
  "sigma1 x = word_rotr 17 x XOR word_rotr 19 x XOR drop_bit 10 x"

text \<open>Padding: the byte 0x80, zeros up to 56 modulo 64, the bit length on 8 bytes.\<close>

definition be_bytes :: "nat \<Rightarrow> nat \<Rightarrow> nat list" where
  "be_bytes k n = map (\<lambda>i. (n div 256 ^ i) mod 256) (rev [0..<k])"

definition sha_pad :: "nat list \<Rightarrow> nat list" where
  "sha_pad msg =
     msg @ [128] @ replicate ((64 - (length msg + 9) mod 64) mod 64) 0
         @ be_bytes 8 (8 * length msg)"

definition be32 :: "nat list \<Rightarrow> 32 word" where
  "be32 bs = word_of_nat (foldl (\<lambda>acc b. acc * 256 + b) 0 bs)"

definition sha_blocks :: "nat list \<Rightarrow> nat list list" where
  "sha_blocks p = map (\<lambda>i. take 64 (drop (64 * i) p)) [0..<length p div 64]"

definition block_words :: "nat list \<Rightarrow> 32 word list" where
  "block_words b = map (\<lambda>j. be32 (take 4 (drop (4 * j) b))) [0..<16]"

fun extend_schedule :: "nat \<Rightarrow> 32 word list \<Rightarrow> 32 word list" where
  "extend_schedule 0 w = w"
| "extend_schedule (Suc n) w =
     extend_schedule n
       (w @ [sigma1 (w ! (length w - 2)) + w ! (length w - 7)
             + sigma0 (w ! (length w - 15)) + w ! (length w - 16)])"

definition schedule :: "nat list \<Rightarrow> 32 word list" where
  "schedule b = extend_schedule 48 (block_words b)"

fun sha_round :: "32 word \<times> 32 word \<Rightarrow> hstate \<Rightarrow> hstate" where
  "sha_round (k, w) (a, b, c, d, e, f, g, h) =
     (let T1 = h + Sigma1 e + Ch e f g + k + w;
          T2 = Sigma0 a + Maj a b c
      in (T1 + T2, a, b, c, d + T1, e, f, g))"

fun add_state :: "hstate \<Rightarrow> hstate \<Rightarrow> hstate" where
  "add_state (a, b, c, d, e, f, g, h) (a', b', c', d', e', f', g', h') =
     (a + a', b + b', c + c', d + d', e + e', f + f', g + g', h + h')"

definition compress :: "nat list \<Rightarrow> hstate \<Rightarrow> hstate" where
  "compress block hs = add_state hs (fold sha_round (zip K256 (schedule block)) hs)"

definition sha256 :: "nat list \<Rightarrow> hstate" where
  "sha256 msg = fold compress (sha_blocks (sha_pad msg)) H256"

definition hex_digit :: "nat \<Rightarrow> char" where
  "hex_digit n = ''0123456789abcdef'' ! n"

definition hex32 :: "32 word \<Rightarrow> string" where
  "hex32 w = map (\<lambda>i. hex_digit (unat (drop_bit (4 * i) w AND 15))) [7, 6, 5, 4, 3, 2, 1, 0]"

fun hexdigest :: "hstate \<Rightarrow> string" where
  "hexdigest (a, b, c, d, e, f, g, h) = concat (map hex32 [a, b, c, d, e, f, g, h])"

text \<open>\<open>s.encode()\<close>: UTF-8; a code point from 128 to 255 takes two bytes.\<close>

definition utf8 :: "string \<Rightarrow> nat list" where
  "utf8 s =
     concat (map (\<lambda>c. if cp c < 128 then [cp c] else [192 + cp c div 64, 128 + cp c mod 64]) s)"

section \<open>base_scraper.generate_id\<close>

text \<open>
  The arguments are written into an f-string, so a value that is not a string enters
  through \<open>str\<close>; \<open>normalize_opportunity\<close> can pass such values.
\<close>

definition unique_string :: "pyval \<Rightarrow> pyval \<Rightarrow> pyval \<Rightarrow> string" where
  "unique_string title source url =
     str_lower (py_str source @ ''_'' @ py_str title @ ''_'' @ py_str url)"

definition generate_id :: "pyval \<Rightarrow> pyval \<Rightarrow> pyval \<Rightarrow> string" where
  "generate_id title source url =
     take 16 (hexdigest (sha256 (utf8 (unique_string title source url))))"

section \<open>base_scraper.normalize_opportunity\<close>

text \<open>
  \<open>today\<close> is the value of \<open>datetime.now().strftime('%Y-%m-%d')\<close>, read from the clock.
\<close>

definition required_fields :: "string \<Rightarrow> (string \<times> pyval) list" where
  "required_fields today =
     [(''id'', PyStr []), (''source'', PyStr []), (''title'', PyStr []),
      (''type'', PyStr ''Job''), (''organization'', PyStr []),
      (''location'', PyStr ''Namibia''), (''description'', PyStr []),
      (''url'', PyStr []), (''date_posted'', PyStr today), (''verified'', PyBool True)]"

text \<open>\<open>clean_text(str(value)) if isinstance(value, str) else value\<close>.\<close>

fun clean_value :: "pyval \<Rightarrow> pyval" where
  "clean_value (PyStr s) = PyStr (clean_text s)"
| "clean_value v = v"

text \<open>
  The loop over \<open>opp.items()\<close> writes \<open>normalized[key]\<close> for the keys that
  \<open>normalized\<close> already has. The keys of a dict are distinct, so the order of the items
  does not matter and the result is, key by key, the cleaned value of \<open>opp\<close> when
  \<open>opp\<close> has the key and the default otherwise.
\<close>

definition overlay :: "dict \<Rightarrow> dict \<Rightarrow> dict" where
  "overlay normalized opp =
     (\<lambda>key. case normalized key of
               None \<Rightarrow> None
             | Some dflt \<Rightarrow> (case opp key of None \<Rightarrow> Some dflt | Some v \<Rightarrow> Some (clean_value v)))"

definition normalize_opportunity :: "string \<Rightarrow> dict \<Rightarrow> dict" where
  "normalize_opportunity today opp =
     (let normalized = overlay (map_of (required_fields today)) opp
      in if \<not> truthy (dict_get normalized ''id'')
         then normalized(''id'' \<mapsto>
                PyStr (generate_id (dict_get normalized ''title'')
                                   (dict_get normalized ''source'')
                                   (dict_get normalized ''url'')))
         else normalized)"

section \<open>base_scraper.extract_date\<close>

text \<open>
  The three patterns are matched by \<open>re.search\<close>: at each start position from the left,
  the backtracking matcher tries its alternatives in order and the first complete match
  wins. A matcher below returns, for one start position, the list of its complete matches
  in the order the backtracking finds them; each match is the triple of the three groups.
\<close>

type_synonym groups = "string \<times> string \<times> string"

text \<open>\<open>(\d{1,2})\<close>, greedy: two digits before one. Each result is (group, rest).\<close>

fun digits12 :: "string \<Rightarrow> (string \<times> string) list" where
  "digits12 (a # b # r) =
     (if isdigit a then (if isdigit b then [([a, b], r), ([a], b # r)] else [([a], b # r)])
      else [])"
| "digits12 [a] = (if isdigit a then [([a], [])] else [])"
| "digits12 [] = []"

text \<open>\<open>(\d{4})\<close>.\<close>

definition digits4 :: "string \<Rightarrow> (string \<times> string) list" where
  "digits4 s =
     (if 4 \<le> length s \<and> list_all isdigit (take 4 s) then [(take 4 s, drop 4 s)] else [])"

text \<open>A single character out of a class, or a literal: the rest behind it.\<close>

fun one_char :: "(char \<Rightarrow> bool) \<Rightarrow> string \<Rightarrow> string list" where
  "one_char p [] = []"
| "one_char p (c # r) = (if p c then [r] else [])"

definition slash_or_dash :: "char \<Rightarrow> bool" where
  "slash_or_dash c = (c = CHR ''/'' \<or> c = CHR ''-'')"

text \<open>\<open>(\d{1,2})[/-](\d{1,2})[/-](\d{4})\<close>\<close>

definition match_dmy :: "string \<Rightarrow> groups list" where
  "match_dmy s =
     concat (map (\<lambda>(g1, r1).
       concat (map (\<lambda>r2.
         concat (map (\<lambda>(g2, r3).
           concat (map (\<lambda>r4.
             map (\<lambda>(g3, r5). (g1, g2, g3)) (digits4 r4))
           (one_char slash_or_dash r3)))
         (digits12 r2)))
       (one_char slash_or_dash r1)))
     (digits12 s))"

text \<open>\<open>(\d{4})-(\d{1,2})-(\d{1,2})\<close>\<close>

definition match_ymd :: "string \<Rightarrow> groups list" where
  "match_ymd s =
     concat (map (\<lambda>(g1, r1).
       concat (map (\<lambda>r2.
         concat (map (\<lambda>(g2, r3).
           concat (map (\<lambda>r4.
             map (\<lambda>(g3, r5). (g1, g2, g3)) (digits12 r4))
           (one_char (\<lambda>c. c = CHR ''-'') r3)))
         (digits12 r2)))
       (one_char (\<lambda>c. c = CHR ''-'') r1)))
     (digits4 s))"

text \<open>
  \<open>(Jan|Feb|...|Dec)[a-z]* (\d{1,2}),? (\d{4})\<close> under \<open>re.IGNORECASE\<close>. Below 256
  the characters that match a letter of a month name, or the class \<open>[a-z]\<close>, without
  regard to case are the ASCII letters of either case.
\<close>

definition month_names :: "(string \<times> string) list" where
  "month_names =
     [(''jan'', ''01''), (''feb'', ''02''), (''mar'', ''03''), (''apr'', ''04''),
      (''may'', ''05''), (''jun'', ''06''), (''jul'', ''07''), (''aug'', ''08''),
      (''sep'', ''09''), (''oct'', ''10''), (''nov'', ''11''), (''dec'', ''12'')]"

definition isletter :: "char \<Rightarrow> bool" where
  "isletter c = ((65 \<le> cp c \<and> cp c \<le> 90) \<or> (97 \<le> cp c \<and> cp c \<le> 122))"

definition month_abbrev :: "string \<Rightarrow> (string \<times> string) list" where
  "month_abbrev s =
     (if 3 \<le> length s \<and> list_all isletter (take 3 s)
         \<and> str_lower (take 3 s) \<in> set (map fst month_names)
      then [(take 3 s, drop 3 s)] else [])"

text \<open>\<open>[a-z]*\<close>, greedy: the longest run of letters first, then one letter less each time.\<close>

definition letters_star :: "string \<Rightarrow> string list" where
  "letters_star s = map (\<lambda>k. drop k s) (rev [0..<Suc (length (takeWhile isletter s))])"

text \<open>\<open>,?\<close>, greedy: with the comma first, then without.\<close>

definition comma_opt :: "string \<Rightarrow> string list" where
  "comma_opt s = one_char (\<lambda>c. c = CHR '','') s @ [s]"

definition match_mdy :: "string \<Rightarrow> groups list" where
  "match_mdy s =
     concat (map (\<lambda>(g1, r1).
       concat (map (\<lambda>r2.
         concat (map (\<lambda>r3.
           concat (map (\<lambda>(g2, r4).
             concat (map (\<lambda>r5.
               concat (map (\<lambda>r6.
                 map (\<lambda>(g3, r7). (g1, g2, g3)) (digits4 r6))
               (one_char (\<lambda>c. c = CHR '' '') r5)))
             (comma_opt r4)))
           (digits12 r3)))
         (one_char (\<lambda>c. c = CHR '' '') r2)))
       (letters_star r1)))
     (month_abbrev s))"

text \<open>\<open>re.search\<close>: the first match at the leftmost start position that has one.\<close>

fun re_search :: "(string \<Rightarrow> groups list) \<Rightarrow> string \<Rightarrow> groups option" where
  "re_search m [] = (case m [] of [] \<Rightarrow> None | g # _ \<Rightarrow> Some g)"
| "re_search m (c # cs) = (case m (c # cs) of [] \<Rightarrow> re_search m cs | g # _ \<Rightarrow> Some g)"

text \<open>The three formatters.\<close>

definition parse_month_date :: "string \<Rightarrow> string \<Rightarrow> string \<Rightarrow> string" where
  "parse_month_date month day year =
     year @ ''-''
       @ (case map_of month_names (take 3 (str_lower month)) of None \<Rightarrow> ''01'' | Some n \<Rightarrow> n)
       @ ''-'' @ zfill2 day"

definition format_dmy :: "groups \<Rightarrow> string" where
  "format_dmy m = (case m of (g1, g2, g3) \<Rightarrow> g3 @ ''-'' @ zfill2 g2 @ ''-'' @ zfill2 g1)"

definition format_ymd :: "groups \<Rightarrow> string" where
  "format_ymd m = (case m of (g1, g2, g3) \<Rightarrow> g1 @ ''-'' @ zfill2 g2 @ ''-'' @ zfill2 g3)"

definition format_mdy :: "groups \<Rightarrow> string" where
  "format_mdy m = (case m of (g1, g2, g3) \<Rightarrow> parse_month_date g1 g2 g3)"

definition patterns :: "((string \<Rightarrow> groups list) \<times> (groups \<Rightarrow> string)) list" where
  "patterns = [(match_dmy, format_dmy), (match_ymd, format_ymd), (match_mdy, format_mdy)]"

text \<open>
  The loop \<open>for pattern, formatter in patterns\<close>. The formatters are total on the groups
  of a match, so the \<open>except: continue\<close> around them is never taken. Behind the loop
  stands the default, the current date \<open>today\<close>.
\<close>

fun try_patterns ::
  "((string \<Rightarrow> groups list) \<times> (groups \<Rightarrow> string)) list \<Rightarrow> string \<Rightarrow> string \<Rightarrow> string" where
  "try_patterns [] today raw_text = today"
| "try_patterns ((pattern, formatter) # ps) today raw_text =
     (case re_search pattern raw_text of
        Some m \<Rightarrow> formatter m
      | None \<Rightarrow> try_patterns ps today raw_text)"

text \<open>\<open>extract_date\<close> returns \<open>Optional[str]\<close>: \<open>None\<close> for a falsy \<open>raw_text\<close>.\<close>

definition extract_date :: "string \<Rightarrow> string \<Rightarrow> string option" where
  "extract_date today raw_text =
     (if raw_text = [] then None else Some (try_patterns patterns today raw_text))"

section \<open>run_all.run_scraper and the loop of run_all.main\<close>

text \<open>
  An item of the list a collector returns is a dict or anything else;
  \<open>normalize_opportunity\<close> raises on what has no \<open>items()\<close>.
\<close>

datatype raw_item = Mapping dict | NotMapping

text \<open>
  What a collector module can do when \<open>run_scraper\<close> imports and calls it. \<open>Raises\<close>
  is an exception of class \<open>Exception\<close>, from the import or from \<open>scrape()\<close>.
  \<open>elapsed\<close> is the difference of the two clock readings of \<open>run_scraper\<close>, in
  microseconds.
\<close>

datatype outcome = NoScrapeFunction | Raises | ReturnsNonList | ReturnsList "raw_item list"

record collector =
  name :: string
  behaviour :: outcome
  elapsed :: int

fun run_scraper :: "collector \<Rightarrow> raw_item list \<times> int" where
  "run_scraper c =
     (case behaviour c of
        NoScrapeFunction \<Rightarrow> ([], 0)
      | ReturnsNonList \<Rightarrow> ([], 0)
      | ReturnsList opportunities \<Rightarrow> (opportunities, elapsed c)
      | Raises \<Rightarrow> ([], elapsed c))"

record stat =
  count :: nat
  duration :: int

text \<open>The loop of \<open>main\<close> with its two variables.\<close>

fun run_all ::
  "raw_item list \<Rightarrow> (string \<Rightarrow> stat option) \<Rightarrow> collector list
     \<Rightarrow> raw_item list \<times> (string \<Rightarrow> stat option)" where
  "run_all all_opportunities scraper_stats [] = (all_opportunities, scraper_stats)"
| "run_all all_opportunities scraper_stats (c # cs) =
     (case run_scraper c of (opportunities, d) \<Rightarrow>
        run_all (all_opportunities @ opportunities)
                (scraper_stats(name c \<mapsto> \<lparr>count = length opportunities, duration = d\<rparr>))
                cs)"

section \<open>run_all.aggregate_opportunities\<close>

datatype py_error = TypeError

text \<open>
  The first loop: an item that raises in \<open>normalize_opportunity\<close> is skipped by the
  \<open>except\<close>, an invalid one by the \<open>else\<close>.
\<close>

fun normalize_all :: "string \<Rightarrow> dict list \<Rightarrow> raw_item list \<Rightarrow> dict list" where
  "normalize_all today normalized [] = normalized"
| "normalize_all today normalized (NotMapping # opps) = normalize_all today normalized opps"
| "normalize_all today normalized (Mapping opp # opps) =
     (if validate_opportunity (normalize_opportunity today opp)
      then normalize_all today (normalized @ [normalize_opportunity today opp]) opps
      else normalize_all today normalized opps)"

text \<open>
  Ordering of Python values: two strings compare by code points, lexicographically;
  \<open>bool\<close> and \<open>int\<close> compare as numbers; every other comparison raises \<open>TypeError\<close>
  (also \<open>None < None\<close>). A sort of two or more elements compares every element with
  another one, so it raises unless all keys are strings or all are numbers; a sort of
  fewer elements compares nothing.
\<close>

fun is_str :: "pyval \<Rightarrow> bool" where
  "is_str (PyStr s) = True"
| "is_str v = False"

fun is_num :: "pyval \<Rightarrow> bool" where
  "is_num (PyInt i) = True"
| "is_num (PyBool b) = True"
| "is_num v = False"

fun str_val :: "pyval \<Rightarrow> string" where
  "str_val (PyStr s) = s"
| "str_val v = []"

fun num_val :: "pyval \<Rightarrow> int" where
  "num_val (PyInt i) = i"
| "num_val (PyBool b) = (if b then 1 else 0)"
| "num_val v = 0"

text \<open>
  \<open>xs.sort(key=k, reverse=True)\<close>: the list is reversed, sorted stably in ascending
  order of the keys, and reversed again.
\<close>

definition sort_reverse :: "('a \<Rightarrow> pyval) \<Rightarrow> 'a list \<Rightarrow> py_error + 'a list" where
  "sort_reverse k xs =
     (if length xs \<le> 1 then Inr xs
      else if list_all (\<lambda>x. is_str (k x)) xs then Inr (rev (sort_key (\<lambda>x. str_val (k x)) (rev xs)))
      else if list_all (\<lambda>x. is_num (k x)) xs then Inr (rev (sort_key (\<lambda>x. num_val (k x)) (rev xs)))
      else Inl TypeError)"

text \<open>\<open>sorted(xs)\<close>: ascending.\<close>

definition sorted_py :: "pyval list \<Rightarrow> py_error + pyval list" where
  "sorted_py xs =
     (if length xs \<le> 1 then Inr xs
      else if list_all is_str xs then Inr (sort_key str_val xs)
      else if list_all is_num xs then Inr (sort_key num_val xs)
      else Inl TypeError)"

text \<open>\<open>x.get('date_posted', '')\<close>\<close>

definition date_posted :: "dict \<Rightarrow> pyval" where
  "date_posted x = (case x ''date_posted'' of None \<Rightarrow> PyStr [] | Some v \<Rightarrow> v)"

definition aggregate_opportunities :: "string \<Rightarrow> raw_item list \<Rightarrow> py_error + dict list" where
  "aggregate_opportunities today all_opportunities =
     sort_reverse date_posted (remove_duplicates (normalize_all today [] all_opportunities))"

section \<open>run_all.get_sources\<close>

text \<open>
  The set \<open>sources\<close> keeps one element of each class of equal values, the one added
  first; it is held here as the list of its elements.
\<close>

fun sources_loop :: "pyval list \<Rightarrow> dict list \<Rightarrow> pyval list" where
  "sources_loop sources [] = sources"
| "sources_loop sources (opp # opps) =
     (if truthy (dict_get opp ''source'')
         \<and> py_key (dict_get opp ''source'') \<notin> set (map py_key sources)
      then sources_loop (sources @ [dict_get opp ''source'']) opps
      else sources_loop sources opps)"

definition get_sources :: "dict list \<Rightarrow> py_error + pyval list" where
  "get_sources opportunities = sorted_py (sources_loop [] opportunities)"

section \<open>run_all.main: the output data\<close>

record snapshot =
  total_count :: nat
  sources :: "pyval list"
  scraper_stats :: "string \<Rightarrow> stat option"
  opportunities :: "dict list"

text \<open>
  From the loop over the collectors to \<open>output_data\<close>. A \<open>TypeError\<close> of the sort or of
  \<open>get_sources\<close> leaves \<open>main\<close>; \<open>last_updated\<close> is a clock reading and is left out.
\<close>

definition output_data :: "string \<Rightarrow> collector list \<Rightarrow> py_error + snapshot" where
  "output_data today scrapers =
     (case run_all [] Map.empty scrapers of (all_opportunities, stats) \<Rightarrow>
        (case aggregate_opportunities today all_opportunities of
           Inl e \<Rightarrow> Inl e
         | Inr final_opportunities \<Rightarrow>
             (case get_sources final_opportunities of
                Inl e \<Rightarrow> Inl e
              | Inr srcs \<Rightarrow>
                  Inr \<lparr>total_count = length final_opportunities, sources = srcs,
                       scraper_stats = stats, opportunities = final_opportunities\<rparr>)))"

section \<open>base_scraper.write_json\<close>

text \<open>
  The file system is the state: a map from paths to file contents. A path is a directory
  and a file name, \<open>os.path.dirname\<close> is the first component. The text that \<open>json.dump\<close>
  writes is given as \<open>content\<close>.

  Every call into the operating system can raise. \<open>fault\<close> names the call of the
  \<open>try\<close> body that raises, if any (\<open>DumpFails k\<close>: after \<open>k\<close> characters were written);
  \<open>remove_fails\<close> says whether \<open>os.remove\<close> in the handler raises. \<open>tmp_name\<close> is the
  name \<open>tempfile.mkstemp\<close> picks; it creates a new file and raises when the name is taken.
\<close>

type_synonym path = "string \<times> string"

type_synonym filesystem = "path \<Rightarrow> string option"

datatype fault =
  NoFault | MakedirsFails | MkstempFails | DumpFails nat | ReplaceFails | GetsizeFails

record environment =
  fault :: fault
  remove_fails :: bool
  tmp_name :: string

datatype result = Returned bool | Raised

text \<open>
  The handler: \<open>if 'temp_path' in locals() and os.path.exists(temp_path): os.remove(temp_path)\<close>
  and \<open>return False\<close>. An exception of \<open>os.remove\<close> leaves the function.
\<close>

definition handler :: "environment \<Rightarrow> path option \<Rightarrow> filesystem \<Rightarrow> result \<times> filesystem" where
  "handler env temp_path fs =
     (case temp_path of
        None \<Rightarrow> (Returned False, fs)
      | Some p \<Rightarrow>
          (if fs p \<noteq> None
           then (if remove_fails env then (Raised, fs) else (Returned False, fs(p := None)))
           else (Returned False, fs)))"

definition write_json :: "environment \<Rightarrow> string \<Rightarrow> path \<Rightarrow> filesystem \<Rightarrow> result \<times> filesystem" where
  "write_json env content filepath fs =
     (let temp_path = (fst filepath, tmp_name env @ ''.tmp'') in
      if fault env = MakedirsFails then handler env None fs
      else if fault env = MkstempFails \<or> fs temp_path \<noteq> None then handler env None fs
      else (case fault env of
              DumpFails k \<Rightarrow> handler env (Some temp_path) (fs(temp_path \<mapsto> take k content))
            | ReplaceFails \<Rightarrow> handler env (Some temp_path) (fs(temp_path \<mapsto> content))
            | GetsizeFails \<Rightarrow>
                handler env (Some temp_path) (fs(temp_path := None, filepath \<mapsto> content))
            | _ \<Rightarrow> (Returned True, fs(temp_path := None, filepath \<mapsto> content))))"

section \<open>Notions of the specification\<close>

text \<open>
  The definitions of this section do not come from the code: they say, executably, what
  the specification means by its words, and the theorems compare them with the code.
\<close>

text \<open>A string is blank when it is empty or consists of whitespace only.\<close>

definition blank :: "string \<Rightarrow> bool" where
  "blank s = list_all isspace s"

text \<open>
  A field of a record is missing, empty or blank: the key is absent, the value is falsy
  (\<open>None\<close>, \<open>False\<close>, \<open>0\<close>, the empty string), or what \<open>str\<close> makes of it is blank.
\<close>

definition missing_empty_or_blank :: "dict \<Rightarrow> string \<Rightarrow> bool" where
  "missing_empty_or_blank opp f =
     (case opp f of None \<Rightarrow> True | Some v \<Rightarrow> \<not> truthy v \<or> blank (py_str v))"

text \<open>The id of a record, as the set of seen ids compares it, and whether it is truthy.\<close>

definition id_key :: "dict \<Rightarrow> pyval" where
  "id_key opp = py_key (dict_get opp ''id'')"

definition has_id :: "dict \<Rightarrow> bool" where
  "has_id opp = truthy (dict_get opp ''id'')"

text \<open>
  Position \<open>i\<close> of \<open>xs\<close> holds a first occurrence: its id is truthy and no earlier
  position holds an equal id. \<open>first_occurrences\<close> is the subsequence of the records at
  these positions. \<open>fresh_occurrence\<close> is the same with a set of ids that count as seen
  from the start.
\<close>

definition fresh_occurrence :: "pyval set \<Rightarrow> dict list \<Rightarrow> nat \<Rightarrow> bool" where
  "fresh_occurrence seen xs i =
     (has_id (xs ! i) \<and> id_key (xs ! i) \<notin> seen
      \<and> list_all (\<lambda>j. id_key (xs ! j) \<noteq> id_key (xs ! i)) [0..<i])"

definition first_occurrence :: "dict list \<Rightarrow> nat \<Rightarrow> bool" where
  "first_occurrence xs i =
     (has_id (xs ! i) \<and> list_all (\<lambda>j. id_key (xs ! j) \<noteq> id_key (xs ! i)) [0..<i])"

definition first_occurrences :: "dict list \<Rightarrow> dict list" where
  "first_occurrences xs = map (\<lambda>i. xs ! i) (filter (first_occurrence xs) [0..<length xs])"













text \<open>The shape \<open>YYYY-MM-DD\<close>: ten characters, digits around two hyphens.\<close>

fun iso_date :: "string \<Rightarrow> bool" where
  "iso_date [y1, y2, y3, y4, h1, m1, m2, h2, d1, d2] =
     (list_all isdigit [y1, y2, y3, y4, m1, m2, d1, d2] \<and> h1 = CHR ''-'' \<and> h2 = CHR ''-'')"
| "iso_date s = False"

text \<open>A list of strings in descending order.\<close>

definition descending :: "string list \<Rightarrow> bool" where
  "descending ks = sorted_wrt (\<lambda>a b. b \<le> a) ks"

text \<open>What a collector contributes: its list, or nothing when it failed.\<close>

definition failed :: "collector \<Rightarrow> bool" where
  "failed c = (case behaviour c of ReturnsList xs \<Rightarrow> False | _ \<Rightarrow> True)"

definition contribution :: "collector \<Rightarrow> raw_item list" where
  "contribution c = (case behaviour c of ReturnsList xs \<Rightarrow> xs | _ \<Rightarrow> [])"

section \<open>Lower-casing and cleaning commute\<close>


lemma cp_lt_256: "cp c < 256"
  unfolding cp_def by (metis of_char_mod_256 mod_less_divisor zero_less_numeral)

















section \<open>The identifier and the fields of a normalized record\<close>








lemma normalize_field:
  "k \<noteq> ''id'' \<Longrightarrow>
   normalize_opportunity today opp k = overlay (map_of (required_fields today)) opp k"
  by (simp add: normalize_opportunity_def Let_def)





lemma overlay_title: "opp ''title'' = Some v \<Longrightarrow>
   overlay (map_of (required_fields today)) opp ''title'' = Some (clean_value v)"
  by (simp add: overlay_def required_fields_def)

lemma overlay_source: "opp ''source'' = Some v \<Longrightarrow>
   overlay (map_of (required_fields today)) opp ''source'' = Some (clean_value v)"
  by (simp add: overlay_def required_fields_def)

section \<open>Deduplication keeps the first occurrences\<close>

lemma truthy_py_key: "truthy (py_key v) = truthy v"
  by (cases v) auto

lemma py_key_eq_truthy: "py_key a = py_key b \<Longrightarrow> truthy a = truthy b"
  by (metis truthy_py_key)

lemma dedup_loop_append:
  "dedup_loop seen acc xs = acc @ dedup_loop seen [] xs"
proof (induction xs arbitrary: seen acc)
  case Nil
  show ?case by simp
next
  case (Cons x xs)
  show ?case
    using Cons.IH [of "insert (py_key (dict_get x ''id'')) seen" "acc @ [x]"]
          Cons.IH [of "insert (py_key (dict_get x ''id'')) seen" "[x]"]
          Cons.IH [of seen acc]
    by simp
qed

lemma dedup_loop_Cons:
  "dedup_loop seen [] (x # xs) =
     (if has_id x \<and> id_key x \<notin> seen then x # dedup_loop (insert (id_key x) seen) [] xs
      else dedup_loop seen [] xs)"
  using dedup_loop_append [of "insert (id_key x) seen" "[x]" xs]
  by (simp add: has_id_def id_key_def)

lemma filter_upt_Suc:
  "filter P [0..<Suc n] = (if P 0 then [0] else []) @ map Suc (filter (\<lambda>i. P (Suc i)) [0..<n])"
proof -
  have "[0..<Suc n] = 0 # map Suc [0..<n]"
    by (simp add: upt_conv_Cons map_Suc_upt del: upt_Suc)
  then show ?thesis
    by (simp add: filter_map comp_def del: upt_Suc)
qed

lemma fresh_occurrence_0:
  "fresh_occurrence seen (x # xs) 0 = (has_id x \<and> id_key x \<notin> seen)"
  by (simp add: fresh_occurrence_def)

lemma list_all_map_comp: "list_all P (map f xs) = list_all (\<lambda>x. P (f x)) xs"
  by (induction xs) auto

lemma list_all_upt_Suc:
  "list_all P [0..<Suc i] = (P 0 \<and> list_all (\<lambda>j. P (Suc j)) [0..<i])"
proof -
  have "[0..<Suc i] = 0 # map Suc [0..<i]"
    by (simp add: upt_conv_Cons map_Suc_upt del: upt_Suc)
  then have "list_all P [0..<Suc i] = list_all P (0 # map Suc [0..<i])"
    by (simp only:)
  then show ?thesis
    by (simp add: list_all_map_comp)
qed

lemma fresh_occurrence_Suc:
  "fresh_occurrence seen (x # xs) (Suc i) =
     fresh_occurrence (if has_id x \<and> id_key x \<notin> seen then insert (id_key x) seen else seen) xs i"
proof -
  have differ: "has_id (xs ! i) \<Longrightarrow> \<not> has_id x \<Longrightarrow> id_key x \<noteq> id_key (xs ! i)"
    unfolding has_id_def id_key_def using py_key_eq_truthy by blast
  show ?thesis
    unfolding fresh_occurrence_def
    using differ by (auto simp: list_all_upt_Suc simp del: upt_Suc)
qed

lemma dedup_loop_fresh:
  "dedup_loop seen [] xs = map (\<lambda>i. xs ! i) (filter (fresh_occurrence seen xs) [0..<length xs])"
proof (induction xs arbitrary: seen)
  case Nil
  show ?case by simp
next
  case (Cons x xs)
  show ?case
    by (simp add: dedup_loop_Cons filter_upt_Suc fresh_occurrence_0 fresh_occurrence_Suc
          Cons.IH comp_def del: upt_Suc dedup_loop.simps)
qed

lemma first_occurrence_fresh: "first_occurrence xs = fresh_occurrence {} xs"
  by (rule ext) (simp add: first_occurrence_def fresh_occurrence_def)

lemma dedup_loop_subseq: "subseq (dedup_loop seen [] xs) xs"
  by (induction xs arbitrary: seen) (auto simp: dedup_loop_Cons simp del: dedup_loop.simps(2))

lemma dedup_loop_ids:
  "distinct (map id_key (dedup_loop seen [] xs))
   \<and> id_key ` set (dedup_loop seen [] xs) \<inter> seen = {}
   \<and> (\<forall>x \<in> set (dedup_loop seen [] xs). has_id x)"
proof (induction xs arbitrary: seen)
  case Nil
  show ?case by simp
next
  case (Cons x xs)
  show ?case
    using Cons.IH [of seen] Cons.IH [of "insert (id_key x) seen"]
    by (auto simp: dedup_loop_Cons simp del: dedup_loop.simps)
qed

text \<open>
  Claim C4. \<open>remove_duplicates\<close> preserves order: for every input list, the output is
  the subsequence made of exactly the first occurrence of each distinct id. A later
  record with an id that was seen before is discarded, and a record whose id is falsy
  (missing, \<open>None\<close>, empty) is dropped, never kept and never counted as a first
  occurrence. The output equals \<open>first_occurrences\<close>, it is a subsequence of the input,
  its ids are pairwise different and all truthy.
\<close>

theorem remove_duplicates_first_occurrences:
  "remove_duplicates xs = first_occurrences xs
   \<and> subseq (remove_duplicates xs) xs
   \<and> distinct (map id_key (remove_duplicates xs))
   \<and> list_all has_id (remove_duplicates xs)"
proof -
  have eq: "remove_duplicates xs = first_occurrences xs"
    by (simp add: remove_duplicates_def first_occurrences_def dedup_loop_fresh first_occurrence_fresh)
  have "subseq (remove_duplicates xs) xs"
    by (simp add: remove_duplicates_def dedup_loop_subseq)
  moreover have "distinct (map id_key (remove_duplicates xs))"
    using dedup_loop_ids [of "{}" xs] by (simp add: remove_duplicates_def)
  moreover have "list_all has_id (remove_duplicates xs)"
    using dedup_loop_ids [of "{}" xs] by (simp add: remove_duplicates_def list_all_iff)
  ultimately show ?thesis using eq by simp
qed

text \<open>
  On five records (an id, an empty id, the first id again, no id, a second id) the first
  and the last remain.
\<close>

theorem remove_duplicates_first_occurrences_witness:
  "remove_duplicates
     [[''id'' \<mapsto> PyStr ''x'', ''title'' \<mapsto> PyStr ''first''], [''id'' \<mapsto> PyStr ''''],
      [''id'' \<mapsto> PyStr ''x'', ''title'' \<mapsto> PyStr ''second''], [''title'' \<mapsto> PyStr ''none''],
      [''id'' \<mapsto> PyStr ''y'']]
   = [[''id'' \<mapsto> PyStr ''x'', ''title'' \<mapsto> PyStr ''first''], [''id'' \<mapsto> PyStr ''y'']]"
  using remove_duplicates_first_occurrences
    [of "[[''id'' \<mapsto> PyStr ''x'', ''title'' \<mapsto> PyStr ''first''], [''id'' \<mapsto> PyStr ''''],
          [''id'' \<mapsto> PyStr ''x'', ''title'' \<mapsto> PyStr ''second''], [''title'' \<mapsto> PyStr ''none''],
          [''id'' \<mapsto> PyStr ''y'']]"]
  by (simp add: first_occurrences_def first_occurrence_def has_id_def id_key_def dict_get_def upt_rec)

section \<open>Validation looks at title and source only\<close>

lemma dropWhile_all_iff: "(\<forall>x \<in> set (dropWhile P xs). P x) = (\<forall>x \<in> set xs. P x)"
proof
  assume a: "\<forall>x \<in> set (dropWhile P xs). P x"
  have "dropWhile P xs = []"
  proof (rule ccontr)
    assume "dropWhile P xs \<noteq> []"
    then have "\<not> P (hd (dropWhile P xs))" by (rule hd_dropWhile)
    moreover have "hd (dropWhile P xs) \<in> set (dropWhile P xs)"
      using \<open>dropWhile P xs \<noteq> []\<close> by simp
    ultimately show False using a by blast
  qed
  then show "\<forall>x \<in> set xs. P x" by (simp add: dropWhile_eq_Nil_conv)
next
  assume "\<forall>x \<in> set xs. P x"
  then show "\<forall>x \<in> set (dropWhile P xs). P x"
    using set_dropWhileD by fastforce
qed

lemma str_strip_empty_iff: "(str_strip s = []) = blank s"
  by (simp add: str_strip_def blank_def dropWhile_eq_Nil_conv dropWhile_all_iff list_all_iff)

lemma validate_opportunity_fields:
  "validate_opportunity opp =
     (\<not> missing_empty_or_blank opp ''title'' \<and> \<not> missing_empty_or_blank opp ''source'')"
  by (auto simp: validate_opportunity_def missing_empty_or_blank_def dict_get_def
        str_strip_empty_iff split: option.splits)

lemma isspace_not_lt: "isspace c \<Longrightarrow> c \<noteq> CHR ''<''"
  by (auto simp: isspace_def cp_def)

lemma strip_tags_no_lt: "CHR ''<'' \<notin> set s \<Longrightarrow> strip_tags s = s"
  by (induction s) auto

lemma collapse_ws_blank: "blank s \<Longrightarrow> s \<noteq> [] \<Longrightarrow> collapse_ws s = '' ''"
proof (cases s)
  case Nil
  assume "s \<noteq> []"
  with Nil show ?thesis by simp
next
  case (Cons a list)
  assume b: "blank s"
  have sp: "isspace a" using b Cons by (simp add: blank_def)
  have d: "dropWhile isspace list = []"
    using b Cons by (simp add: blank_def list_all_iff dropWhile_eq_Nil_conv)
  have "collapse_ws s = CHR '' '' # collapse_ws (dropWhile isspace list)"
    using Cons sp by simp
  also have "\<dots> = '' ''"
    by (simp only: d collapse_ws.simps)
  finally show ?thesis .
qed

lemma clean_text_blank: "blank t \<Longrightarrow> clean_text t = []"
proof (cases "t = []")
  case True
  then show ?thesis by (simp add: clean_text_def)
next
  case False
  assume b: "blank t"
  have "CHR ''<'' \<notin> set t"
    using b isspace_not_lt by (auto simp: blank_def list_all_iff)
  then have "strip_tags t = t" by (rule strip_tags_no_lt)
  moreover have "collapse_ws t = '' ''" using b False by (rule collapse_ws_blank)
  moreover have "str_strip '' '' = []"
    by (simp add: str_strip_def isspace_def cp_def)
  ultimately show ?thesis
    by (simp add: clean_text_def replace_nbsp_def remove_cr_def)
qed

text \<open>
  Claim C5. \<open>validate_opportunity\<close> returns false if and only if the title or the
  source of the record is missing, empty or blank; no other field is looked at, so two
  records with the same title and source are both valid or both invalid. For a raw
  record with a string title and a string source, the normalized record is valid exactly
  when neither is blank after cleaning; a blank input such as three spaces cleans to the
  empty string.
\<close>

theorem validate_opportunity_iff:
  "(validate_opportunity opp =
      (\<not> missing_empty_or_blank opp ''title'' \<and> \<not> missing_empty_or_blank opp ''source''))
   \<and> (opp' ''title'' = opp ''title'' \<and> opp' ''source'' = opp ''source''
        \<longrightarrow> validate_opportunity opp' = validate_opportunity opp)
   \<and> (raw ''title'' = Some (PyStr t) \<and> raw ''source'' = Some (PyStr s)
        \<longrightarrow> validate_opportunity (normalize_opportunity today raw)
              = (\<not> blank (clean_text t) \<and> \<not> blank (clean_text s)))
   \<and> (blank t \<longrightarrow> clean_text t = [])"
proof (intro conjI impI)
  show "validate_opportunity opp =
      (\<not> missing_empty_or_blank opp ''title'' \<and> \<not> missing_empty_or_blank opp ''source'')"
    by (rule validate_opportunity_fields)
next
  assume "opp' ''title'' = opp ''title'' \<and> opp' ''source'' = opp ''source''"
  then show "validate_opportunity opp' = validate_opportunity opp"
    by (simp add: validate_opportunity_fields missing_empty_or_blank_def)
next
  assume a: "raw ''title'' = Some (PyStr t) \<and> raw ''source'' = Some (PyStr s)"
  have "normalize_opportunity today raw ''title'' = Some (PyStr (clean_text t))"
    using a by (simp add: normalize_field overlay_title)
  moreover have "normalize_opportunity today raw ''source'' = Some (PyStr (clean_text s))"
    using a by (simp add: normalize_field overlay_source)
  ultimately show "validate_opportunity (normalize_opportunity today raw)
              = (\<not> blank (clean_text t) \<and> \<not> blank (clean_text s))"
    by (auto simp: validate_opportunity_fields missing_empty_or_blank_def blank_def)
next
  assume "blank t"
  then show "clean_text t = []" by (rule clean_text_blank)
qed

text \<open>
  A record with title and source is valid with or without a \<open>url\<close>; a raw record whose
  title is three spaces is invalid once normalized.
\<close>

theorem validate_opportunity_iff_witness:
  "validate_opportunity [''title'' \<mapsto> PyStr ''Dev'', ''source'' \<mapsto> PyStr ''NIEIS'']
   \<and> validate_opportunity [''title'' \<mapsto> PyStr ''Dev'', ''source'' \<mapsto> PyStr ''NIEIS'', ''url'' \<mapsto> PyNone]
   \<and> \<not> validate_opportunity
         (normalize_opportunity ''2025-01-01'' [''title'' \<mapsto> PyStr ''   '', ''source'' \<mapsto> PyStr ''S''])"
  using validate_opportunity_iff
    [of "[''title'' \<mapsto> PyStr ''Dev'', ''source'' \<mapsto> PyStr ''NIEIS'']"
        "[''title'' \<mapsto> PyStr ''Dev'', ''source'' \<mapsto> PyStr ''NIEIS'', ''url'' \<mapsto> PyNone]"
        "[''title'' \<mapsto> PyStr ''   '', ''source'' \<mapsto> PyStr ''S'']" "''   ''" "''S''" "''2025-01-01''"]
  by (simp add: missing_empty_or_blank_def blank_def isspace_def cp_def)

section \<open>Values that are not strings pass through normalization\<close>










section \<open>Every normalized record has an id\<close>



section \<open>The identifier is a function of source, title and url\<close>








end
